theory Spec2Isabelle
  imports Main
begin

section \<open>Go strings and the functions of package strings the program calls\<close>

text \<open>
  A Go string is its sequence of bytes, here a \<open>string\<close> (a list of 8-bit characters).
  The two characters the program tests for that cannot be typed inside a literal are
  named: the double quote (0x22) and the backslash (0x5C).
\<close>

definition dquote :: char where
  "dquote = CHR 0x22"

definition backslash :: char where
  "backslash = CHR 0x5C"

text \<open>\<open>strings.HasPrefix(s, prefix)\<close> and \<open>strings.HasSuffix(s, suffix)\<close>.\<close>

fun HasPrefix :: "string \<Rightarrow> string \<Rightarrow> bool" where
  "HasPrefix s [] = True"
| "HasPrefix [] (p # ps) = False"
| "HasPrefix (c # cs) (p # ps) = (c = p \<and> HasPrefix cs ps)"

definition HasSuffix :: "string \<Rightarrow> string \<Rightarrow> bool" where
  "HasSuffix s suffix =
     (length suffix \<le> length s \<and> drop (length s - length suffix) s = suffix)"

text \<open>
  \<open>strings.Split(s, sep)\<close> for a separator that is not empty (every call of the program
  passes a literal of one or two characters): the string is cut at the leftmost
  occurrence of \<open>sep\<close>, and the search goes on behind that occurrence. \<open>chunk\<close> holds
  the characters read since the last cut. The result always has at least one element.
\<close>

function genSplit :: "string \<Rightarrow> string \<Rightarrow> string \<Rightarrow> string list" where
  "genSplit sep chunk [] = [chunk]"
| "genSplit sep chunk (c # cs) =
     (if sep \<noteq> [] \<and> HasPrefix (c # cs) sep
      then chunk # genSplit sep [] (drop (length sep) (c # cs))
      else genSplit sep (chunk @ [c]) cs)"
  by pat_completeness auto
termination
  by (relation "measure (\<lambda>(sep, chunk, s). length s)") auto

definition Split :: "string \<Rightarrow> string \<Rightarrow> string list" where
  "Split s sep = genSplit sep [] s"

text \<open>\<open>strings.Join(elems, sep)\<close>.\<close>

fun Join :: "string list \<Rightarrow> string \<Rightarrow> string" where
  "Join [] sep = []"
| "Join [x] sep = x"
| "Join (x # y # ys) sep = x @ sep @ Join (y # ys) sep"

text \<open>
  \<open>strings.Replace(s, old, new, -1)\<close> for a pattern \<open>old\<close> that is not empty: every
  occurrence of \<open>old\<close>, found from the left and without overlap, becomes \<open>new\<close>.
\<close>

function Replace :: "string \<Rightarrow> string \<Rightarrow> string \<Rightarrow> string" where
  "Replace [] old new = []"
| "Replace (c # cs) old new =
     (if old \<noteq> [] \<and> HasPrefix (c # cs) old
      then new @ Replace (drop (length old) (c # cs)) old new
      else c # Replace cs old new)"
  by pat_completeness auto
termination
  by (relation "measure (\<lambda>(s, old, new). length s)") auto

text \<open>
  Ranging over a Go string yields its runes: at each position the code point of the
  UTF-8 sequence that starts there, or, when the bytes there are not a valid sequence,
  the replacement character U+FFFD, after which the iteration advances by one byte. A
  rune is represented here by its UTF-8 encoding, the bytes that converting it back to
  a string gives; the encoding of U+FFFD is EF BF BD. \<open>rune_width\<close> is the length of the
  valid sequence at the head of a string (the ranges of the Unicode standard, as in
  package utf8: no overlong forms, no surrogates, nothing above U+10FFFF), or 0.
\<close>

definition byte_in :: "nat \<Rightarrow> nat \<Rightarrow> char \<Rightarrow> bool" where
  "byte_in lo hi b = (lo \<le> of_char b \<and> of_char b \<le> hi)"

fun rune_width :: "string \<Rightarrow> nat" where
  "rune_width [] = 0"
| "rune_width (b0 # rest) =
     (if byte_in 0x00 0x7F b0 then 1
      else if byte_in 0xC2 0xDF b0 then
        (case rest of
           b1 # _ \<Rightarrow> if byte_in 0x80 0xBF b1 then 2 else 0
         | _ \<Rightarrow> 0)
      else if byte_in 0xE0 0xEF b0 then
        (case rest of
           b1 # b2 # _ \<Rightarrow>
             if byte_in (if b0 = CHR 0xE0 then 0xA0 else 0x80)
                        (if b0 = CHR 0xED then 0x9F else 0xBF) b1
                \<and> byte_in 0x80 0xBF b2
             then 3 else 0
         | _ \<Rightarrow> 0)
      else if byte_in 0xF0 0xF4 b0 then
        (case rest of
           b1 # b2 # b3 # _ \<Rightarrow>
             if byte_in (if b0 = CHR 0xF0 then 0x90 else 0x80)
                        (if b0 = CHR 0xF4 then 0x8F else 0xBF) b1
                \<and> byte_in 0x80 0xBF b2 \<and> byte_in 0x80 0xBF b3
             then 4 else 0
         | _ \<Rightarrow> 0)
      else 0)"

function runes :: "string \<Rightarrow> string list" where
  "runes [] = []"
| "runes (b # bs) =
     (let w = rune_width (b # bs)
      in if w = 0 then [CHR 0xEF, CHR 0xBF, CHR 0xBD] # runes bs
         else take w (b # bs) # runes (drop w (b # bs)))"
  by pat_completeness auto
termination
  by (relation "measure length") auto

text \<open>
  A Go \<open>map[string]string\<close> is a partial map; reading a key that is absent gives the
  zero value, the empty string.
\<close>

definition lookup :: "(string \<rightharpoonup> string) \<Rightarrow> string \<Rightarrow> string" where
  "lookup m k = (case m k of None \<Rightarrow> [] | Some v \<Rightarrow> v)"

section \<open>Credential store\<close>

record credential =
  Username :: string
  Password :: string

record authenticator =
  creds :: "string \<rightharpoonup> credential"

text \<open>A Go \<open>error\<close> value, with its message.\<close>

datatype error = Error string

text \<open>
  The file system as \<open>readCreds\<close> sees it: for a file name, either the error of
  \<open>os.Open\<close> or the lines that the \<open>bufio.Scanner\<close> yields, in order.
\<close>

type_synonym filesystem = "string \<Rightarrow> error + string list"

text \<open>
  The body of the scanning loop of \<open>readCreds\<close>: the host is the text before the first
  space of the line, the payload everything behind that space.
\<close>

definition line_entry :: "string \<Rightarrow> string \<times> string" where
  "line_entry line =
     (let parts = Split line '' '';
          host = hd parts;
          userpass = (if length parts > 1 then Join (tl parts) '' '' else [])
      in (host, userpass))"

fun scan_lines :: "(string \<rightharpoonup> string) \<Rightarrow> string list \<Rightarrow> (string \<rightharpoonup> string)" where
  "scan_lines m [] = m"
| "scan_lines m (line # rest) =
     (case line_entry line of (host, userpass) \<Rightarrow> scan_lines (m(host \<mapsto> userpass)) rest)"

text \<open>
  \<open>readCreds\<close> returns the pair of Go: \<open>(nil, err)\<close> when the file cannot be opened,
  \<open>(creds, nil)\<close> otherwise. A nil map is \<open>None\<close>.
\<close>

definition readCreds :: "filesystem \<Rightarrow> string \<Rightarrow> (string \<rightharpoonup> string) option \<times> error option" where
  "readCreds fs filename =
     (case fs filename of
        Inl err \<Rightarrow> (None, Some err)
      | Inr lines \<Rightarrow> (Some (scan_lines Map.empty lines), None))"

text \<open>
  The body of the loop of \<open>populate\<close>: the payload is split at its colons, the first
  part is the user name and the other parts, joined again by colons, the password.
\<close>

definition new_credential :: "string \<Rightarrow> credential" where
  "new_credential userpass =
     (let parts = Split userpass '':'';
          user = hd parts;
          pass = (if length parts > 1 then Join (tl parts) '':'' else [])
      in \<lparr>Username = user, Password = pass\<rparr>)"

text \<open>
  \<open>populate\<close> ranges over a Go map, in an order that the language leaves open. The
  loop, for the entries in the order \<open>kvs\<close> in which one run visits them:
\<close>

fun populate_range :: "authenticator \<Rightarrow> (string \<times> string) list \<Rightarrow> authenticator" where
  "populate_range result [] = result"
| "populate_range result ((host, userpass) # rest) =
     populate_range (result\<lparr>creds := (creds result)(host \<mapsto> new_credential userpass)\<rparr>) rest"

text \<open>
  Every key is visited once and every step writes the entry of its own key only, so the
  result is the same for every order (lemma \<open>populate_range_populate\<close>): each host of
  \<open>hostsToCreds\<close> gets the credential of its payload, every other host keeps what it
  had. Ranging over a nil map (\<open>None\<close>) visits nothing.
\<close>

definition populate :: "authenticator \<Rightarrow> (string \<rightharpoonup> string) option \<Rightarrow> authenticator" where
  "populate result hostsToCreds =
     (case hostsToCreds of
        None \<Rightarrow> result
      | Some m \<Rightarrow>
          result\<lparr>creds := (\<lambda>host. case m host of
                                     None \<Rightarrow> creds result host
                                   | Some userpass \<Rightarrow> Some (new_credential userpass))\<rparr>)"

definition NewAuthenticator ::
  "filesystem \<Rightarrow> string \<Rightarrow> (string \<rightharpoonup> string) option \<Rightarrow> authenticator \<times> error option" where
  "NewAuthenticator fs credsFilename hostsToCreds =
     (let auther = \<lparr>creds = Map.empty\<rparr>;
          (auther, err) =
             (if credsFilename \<noteq> []
              then (case readCreds fs credsFilename of
                      (fileHostsToCreds, err) \<Rightarrow> (populate auther fileHostsToCreds, err))
              else (auther, None));
          auther = (if hostsToCreds \<noteq> None then populate auther hostsToCreds else auther)
      in (auther, err))"

section \<open>Challenge parser\<close>

text \<open>A run-time panic of Go: a slice expression whose bounds are out of range.\<close>

datatype panic = SliceBoundsOutOfRange

text \<open>
  The first loop of \<open>parseWwwAuth\<close>, over the runes of the header. On an \<open>=\<close> outside
  quotes the chunk becomes a token and the loop continues at once, leaving both flags
  as they are. The chunk is a slice of runes that is converted to a string when it
  becomes a token; it is kept here as that string, the encodings of its runes in a row.
\<close>

fun tokenize :: "bool \<Rightarrow> bool \<Rightarrow> string list \<Rightarrow> string \<Rightarrow> string list \<Rightarrow> string list" where
  "tokenize inQuotes escaped tokens chunk [] = tokens @ [chunk]"
| "tokenize inQuotes escaped tokens chunk (c # cs) =
     (if c = ''='' \<and> \<not> inQuotes
      then tokenize inQuotes escaped (tokens @ [chunk]) [] cs
      else
        (let inQuotes = (if c = [dquote] \<and> \<not> escaped then \<not> inQuotes else inQuotes);
             escaped = (if c = [backslash] then \<not> escaped else False)
         in tokenize inQuotes escaped tokens (chunk @ c) cs))"

text \<open>
  The body of the second loop, for the token \<open>prev\<close> before an \<open>=\<close> and the token behind
  it. \<open>token[:1]\<close> panics on an empty token and \<open>value[len(value)-1:]\<close> panics on an empty
  value. In the branch without a quote the source first assigns the joined parts and
  then overwrites that with \<open>parts[0]\<close>, which is what remains.
\<close>

definition parameter :: "string \<Rightarrow> string \<Rightarrow> panic + (string \<times> string)" where
  "parameter prev token =
     (let prevParts = Split prev '' '';
          name = last prevParts
      in if token = [] then Inl SliceBoundsOutOfRange
         else
           (let val =
                  (if take 1 token = [dquote]
                   then (let parts = Split token [dquote]
                         in Join (butlast parts) [dquote] @ [dquote])
                   else (let parts = Split token '' ''
                         in hd parts))
            in if val = [] then Inl SliceBoundsOutOfRange
               else if drop (length val - 1) val = '',''
               then Inr (name, take (length val - 1) val)
               else Inr (name, val)))"

fun parameters_loop ::
  "(string \<rightharpoonup> string) \<Rightarrow> string \<Rightarrow> string list \<Rightarrow> panic + (string \<rightharpoonup> string)" where
  "parameters_loop parameters prev [] = Inr parameters"
| "parameters_loop parameters prev (token # rest) =
     (case parameter prev token of
        Inl p \<Rightarrow> Inl p
      | Inr (name, val) \<Rightarrow> parameters_loop (parameters(name \<mapsto> val)) token rest)"

definition parseWwwAuth :: "string \<Rightarrow> panic + (string \<rightharpoonup> string)" where
  "parseWwwAuth header =
     (case tokenize False False [] [] (runes header) of
        [] \<Rightarrow> Inl SliceBoundsOutOfRange
      | first # rest \<Rightarrow> parameters_loop Map.empty first rest)"

definition unquote :: "string \<Rightarrow> string" where
  "unquote s =
     (if length s \<ge> 2
      then (let s = (if hd s = dquote \<and> last s = dquote then butlast (tl s) else s)
            in Replace s [backslash, dquote] [dquote])
      else s)"

section \<open>Digest engine\<close>

definition keyedDigest :: "(string \<Rightarrow> string) \<Rightarrow> string \<Rightarrow> string \<Rightarrow> string" where
  "keyedDigest h secret data = h (secret @ '':'' @ data)"

text \<open>
  What the program takes from the Go library, as parameters: the three hash functions
  with their result printed in hexadecimal, the standard base64 encoding, and the outcome
  of \<open>rand.Read\<close> on a buffer of 32 bytes (the bytes, or an error).
\<close>

record stdlib =
  md5_hex :: "string \<Rightarrow> string"
  sha256_hex :: "string \<Rightarrow> string"
  sha512_256_hex :: "string \<Rightarrow> string"
  base64 :: "string \<Rightarrow> string"
  rand_Read :: "error + string"

definition algorithms :: "stdlib \<Rightarrow> string \<Rightarrow> (string \<Rightarrow> string) option" where
  "algorithms lib name =
     (if name = ''MD5'' then Some (md5_hex lib)
      else if name = ''SHA-256'' then Some (sha256_hex lib)
      else if name = ''SHA-512-256'' then Some (sha512_256_hex lib)
      else None)"

definition valueOrDefault :: "string \<Rightarrow> string \<Rightarrow> string" where
  "valueOrDefault v def = (if v \<noteq> [] then v else def)"

definition generateClientNonce :: "stdlib \<Rightarrow> error + string" where
  "generateClientNonce lib =
     (case rand_Read lib of
        Inl err \<Rightarrow> Inl err
      | Inr b \<Rightarrow> Inr (base64 lib b))"

text \<open>
  The request and the response as the program reads them: the method, the results of
  \<open>req.URL.Hostname()\<close> and \<open>req.URL.RequestURI()\<close>, and the header container of the
  response, \<open>None\<close> when it is nil and otherwise its lookup function \<open>Get\<close>. A response
  that is nil is \<open>None\<close>.
\<close>

record http_Request =
  Method :: string
  Hostname :: string
  RequestURI :: string

record http_Response =
  Header :: "(string \<Rightarrow> string) option"

text \<open>
  The values that \<open>getDigestAuth\<close> computes before it assembles the header, under the
  names of the fields they are written to.
\<close>

record digest =
  out_username :: string
  out_realm :: string
  out_uri :: string
  out_algorithm :: string
  out_nonce :: string
  out_nc :: string
  out_cnonce :: string
  out_qop :: string
  out_response :: string
  out_userhash :: string
  out_opaque :: string

text \<open>
  \<open>getDigestAuth\<close> up to the assembly of the header. \<open>Inr None\<close> is one of its early
  returns of the empty string; \<open>Inl\<close> is a panic of the parser. The nonce count
  \<open>fmt.Sprintf("%08x", 1)\<close> is the literal \<open>00000001\<close>.
\<close>

definition digestValues ::
  "stdlib \<Rightarrow> credential \<Rightarrow> http_Request \<Rightarrow> http_Response option \<Rightarrow> panic + digest option" where
  "digestValues lib cred req resp =
     (case resp of
        None \<Rightarrow> Inr None
      | Some r \<Rightarrow>
     (case Header r of
        None \<Rightarrow> Inr None
      | Some header \<Rightarrow>
     (case parseWwwAuth (header ''Www-Authenticate'') of
        Inl p \<Rightarrow> Inl p
      | Inr params \<Rightarrow>
     (let algoString = valueOrDefault (lookup params ''algorithm'') ''MD5'';
          sess = HasSuffix algoString ''-sess'';
          algoString = (if sess then take (length algoString - 5) algoString else algoString)
      in case algorithms lib algoString of
           None \<Rightarrow> Inr None
         | Some algo \<Rightarrow>
     (let realm = lookup params ''realm'';
          nonce = lookup params ''nonce''
      in case generateClientNonce lib of
           Inl err \<Rightarrow> Inr None
         | Inr cnonce \<Rightarrow>
     (let a1Components = [unquote (Username cred), unquote realm, Password cred];
          a1 = (if sess
                then Join [algo (Join a1Components '':''), unquote nonce, unquote cnonce] '':''
                else Join a1Components '':'');
          method = valueOrDefault (Method req) ''GET'';
          requestURI = RequestURI req;
          qopOptions = Split (valueOrDefault (lookup params ''qop'') ''auth'') '', '';
          qop = hd qopOptions;
          qop = (if length qopOptions > 1 then qop @ [dquote] else qop);
          a2Components = [method, requestURI]
      in if qop = ''auth-int'' then Inr None
         else
     (let a2 = Join a2Components '':'';
          nc = ''00000001'';
          dataComponents = [unquote nonce, nc, unquote cnonce, unquote qop, algo a2];
          response = [dquote] @ keyedDigest algo (algo a1) (Join dataComponents '':'') @ [dquote];
          username = Username cred;
          userhash = valueOrDefault (lookup params ''userhash'') ''false'';
          username = (if userhash = ''true''
                      then algo (unquote username @ '':'' @ unquote realm)
                      else username)
      in Inr (Some \<lparr>out_username = username, out_realm = realm, out_uri = requestURI,
                     out_algorithm = algoString, out_nonce = nonce, out_nc = nc,
                     out_cnonce = cnonce, out_qop = qop, out_response = response,
                     out_userhash = userhash,
                     out_opaque = lookup params ''opaque''\<rparr>))))))))"

text \<open>The assembly of the header value, the last lines of \<open>getDigestAuth\<close>.\<close>

definition digestHeader :: "digest \<Rightarrow> string" where
  "digestHeader d =
     (let ret = ''Digest username='' @ [dquote] @ out_username d
                @ [dquote] @ '', realm='' @ out_realm d
                @ '', uri='' @ [dquote] @ out_uri d
                @ [dquote] @ '', algorithm='' @ out_algorithm d
                @ '', nonce='' @ out_nonce d
                @ '', nc='' @ out_nc d
                @ '', cnonce='' @ [dquote] @ out_cnonce d
                @ [dquote] @ '', qop='' @ out_qop d
                @ '', response='' @ out_response d
                @ '', userhash='' @ out_userhash d
      in if out_opaque d \<noteq> [] then ret @ '', opaque='' @ out_opaque d else ret)"

definition getDigestAuth ::
  "stdlib \<Rightarrow> credential \<Rightarrow> http_Request \<Rightarrow> http_Response option \<Rightarrow> panic + string" where
  "getDigestAuth lib cred req resp =
     (case digestValues lib cred req resp of
        Inl p \<Rightarrow> Inl p
      | Inr None \<Rightarrow> Inr []
      | Inr (Some d) \<Rightarrow> Inr (digestHeader d))"

section \<open>Authenticator\<close>

text \<open>
  Modelled from the spec: \<open>SetBasicAuth\<close> of the request type is not part of the source
  file. The spec gives the Basic construction as the base64 encoding of the user name, a
  colon and the password, with the prefix \<open>Basic\<close> and a space; this is the value that
  the header \<open>Authorization\<close> holds afterwards.
\<close>

definition SetBasicAuth :: "stdlib \<Rightarrow> string \<Rightarrow> string \<Rightarrow> string" where
  "SetBasicAuth lib username password = ''Basic '' @ base64 lib (username @ '':'' @ password)"

definition getBasicAuth :: "stdlib \<Rightarrow> credential \<Rightarrow> string" where
  "getBasicAuth lib cred = SetBasicAuth lib (Username cred) (Password cred)"

definition TryGetAuth ::
  "stdlib \<Rightarrow> authenticator \<Rightarrow> http_Request \<Rightarrow> http_Response option \<Rightarrow> panic + string" where
  "TryGetAuth lib auther req resp =
     (let host = Hostname req
      in case creds auther host of
           Some cred \<Rightarrow>
             (case resp of
                None \<Rightarrow> Inr (getBasicAuth lib cred)
              | Some r \<Rightarrow>
                  (case Header r of
                     None \<Rightarrow> Inr (getBasicAuth lib cred)
                   | Some header \<Rightarrow>
                       (let scheme = hd (Split (header ''Www-Authenticate'') '' '')
                        in if scheme = ''Basic'' then Inr (getBasicAuth lib cred)
                           else if scheme = ''Digest'' then getDigestAuth lib cred req resp
                           else Inr [])))
         | None \<Rightarrow> Inr [])"

section \<open>The constructions in the words of the specification\<close>

text \<open>A string between two double quotes.\<close>

definition quoted :: "string \<Rightarrow> string" where
  "quoted s = [dquote] @ s @ [dquote]"

text \<open>
  What the specification says of \<open>unquote\<close>: one pair of surrounding quotes is taken
  off, and only if the string has at least two characters and both its first and its
  last character are quotes.
\<close>

definition strip_quotes :: "string \<Rightarrow> string" where
  "strip_quotes s =
     (if 2 \<le> length s \<and> hd s = dquote \<and> last s = dquote then butlast (tl s) else s)"

text \<open>
  Step 1 of the Digest engine: the algorithm defaults to \<open>MD5\<close>; a suffix \<open>-sess\<close> is
  taken off and sets the session mode. Step 5: the qop parameter, \<open>auth\<close> when absent,
  is split on a comma and a space, the first option is the choice, and a quote is put
  back behind it when there were several options. Steps 3, 6 and 8: A1, A2 and the
  response. Step 9: the user name that goes out.
\<close>

definition spec_algorithm :: "(string \<rightharpoonup> string) \<Rightarrow> string" where
  "spec_algorithm params =
     (let name = (if lookup params ''algorithm'' = [] then ''MD5'' else lookup params ''algorithm'')
      in if HasSuffix name ''-sess'' then take (length name - 5) name else name)"

definition spec_sess :: "(string \<rightharpoonup> string) \<Rightarrow> bool" where
  "spec_sess params =
     HasSuffix (if lookup params ''algorithm'' = [] then ''MD5'' else lookup params ''algorithm'') ''-sess''"

definition spec_qop :: "(string \<rightharpoonup> string) \<Rightarrow> string" where
  "spec_qop params =
     (let options = Split (if lookup params ''qop'' = [] then ''auth'' else lookup params ''qop'') '', ''
      in if length options > 1 then hd options @ [dquote] else hd options)"

definition spec_A1 ::
  "(string \<Rightarrow> string) \<Rightarrow> bool \<Rightarrow> string \<Rightarrow> string \<Rightarrow> string \<Rightarrow> string \<Rightarrow> string \<Rightarrow> string" where
  "spec_A1 hash sess username realm password nonce clientNonce =
     (if sess
      then hash (unquote username @ '':'' @ unquote realm @ '':'' @ password)
             @ '':'' @ unquote nonce @ '':'' @ unquote clientNonce
      else unquote username @ '':'' @ unquote realm @ '':'' @ password)"

definition spec_A2 :: "string \<Rightarrow> string \<Rightarrow> string" where
  "spec_A2 method requestTarget = (if method = [] then ''GET'' else method) @ '':'' @ requestTarget"

definition spec_response ::
  "(string \<Rightarrow> string) \<Rightarrow> string \<Rightarrow> string \<Rightarrow> string \<Rightarrow> string \<Rightarrow> string \<Rightarrow> string" where
  "spec_response hash a1 a2 nonce clientNonce qop =
     quoted (hash (hash a1 @ '':'' @ unquote nonce @ '':'' @ ''00000001'' @ '':''
                   @ unquote clientNonce @ '':'' @ unquote qop @ '':'' @ hash a2))"

definition spec_username :: "(string \<Rightarrow> string) \<Rightarrow> credential \<Rightarrow> (string \<rightharpoonup> string) \<Rightarrow> string" where
  "spec_username hash cred params =
     (if lookup params ''userhash'' = ''true''
      then hash (unquote (Username cred) @ '':'' @ unquote (lookup params ''realm''))
      else Username cred)"

section \<open>Concrete inputs\<close>

text \<open>A file system in which no file can be opened, and one whose files hold one line.\<close>

definition unreadable :: filesystem where
  "unreadable filename = Inl (Error ''open: no such file or directory'')"

definition one_line_file :: filesystem where
  "one_line_file filename = Inr [''h a:1'']"

text \<open>
  The hash functions and the encoding are parameters of the model. For evaluation they
  are replaced by functions that show their name and their argument, so that a result
  displays how it was put together.
\<close>

definition shown :: "string \<Rightarrow> string \<Rightarrow> string" where
  "shown name s = name @ ''['' @ s @ '']''"

definition shown_lib :: stdlib where
  "shown_lib = \<lparr>md5_hex = shown ''md5'', sha256_hex = shown ''sha256'',
                sha512_256_hex = shown ''sha512-256'', base64 = shown ''b64'',
                rand_Read = Inr ''rnd''\<rparr>"

definition mufasa :: credential where
  "mufasa = \<lparr>Username = ''Mufasa'', Password = ''Circle of Life''\<rparr>"

definition index_request :: http_Request where
  "index_request = \<lparr>Method = [], Hostname = ''h'', RequestURI = ''/dir/index.html''\<rparr>"

definition www_authenticate :: "string \<Rightarrow> string \<Rightarrow> string" where
  "www_authenticate h name = (if name = ''Www-Authenticate'' then h else [])"

definition challenge :: "string \<Rightarrow> http_Response" where
  "challenge h = \<lparr>Header = Some (www_authenticate h)\<rparr>"

definition one_host :: authenticator where
  "one_host = \<lparr>creds = [''h'' \<mapsto> mufasa]\<rparr>"

definition challenge_header :: string where
  "challenge_header =
     ''Digest realm='' @ quoted ''test'' @ '', nonce='' @ quoted ''abc123''
       @ '', qop='' @ quoted ''auth''"

definition plain_auth_int_header :: string where
  "plain_auth_int_header = ''Digest realm='' @ quoted ''r'' @ '', nonce='' @ quoted ''n''
                             @ '', qop=auth-int''"

definition other_request :: http_Request where
  "other_request = \<lparr>Method = ''GET'', Hostname = ''other'', RequestURI = ''/''\<rparr>"

definition no_header :: http_Response where
  "no_header = \<lparr>Header = None\<rparr>"

definition auth_int_header :: string where
  "auth_int_header = ''Digest realm='' @ quoted ''r'' @ '', nonce='' @ quoted ''n''
                       @ '', qop='' @ quoted ''auth-int''"

definition qop_list_header :: string where
  "qop_list_header = ''Digest realm='' @ quoted ''r'' @ '', nonce='' @ quoted ''n''
                       @ '', qop='' @ quoted ''auth, auth-int'' @ '', opaque='' @ quoted ''xyz''"
definition empty_opaque_header :: string where
  "empty_opaque_header = ''Digest realm='' @ quoted ''r'' @ '', nonce='' @ quoted ''n''
                           @ '', opaque='' @ quoted []"

definition sess_header :: string where
  "sess_header = ''Digest realm='' @ quoted ''r'' @ '', nonce='' @ quoted ''n''
                  @ '', algorithm=SHA-256-sess, qop=auth, userhash=true''"

section \<open>Properties of the string functions\<close>

lemma genSplit_not_Nil: "genSplit sep chunk s \<noteq> []"
  by (induction sep chunk s rule: genSplit.induct) auto

lemma Join_Cons: "Join (x # ys) sep = (if ys = [] then x else x @ sep @ Join ys sep)"
  by (cases ys) auto

lemma hd_genSplit_char: "hd (genSplit [c] chunk s) = chunk @ takeWhile (\<lambda>x. x \<noteq> c) s"
  by (induction s arbitrary: chunk) auto

lemma Join_genSplit_char: "Join (genSplit [c] chunk s) [c] = chunk @ s"
  by (induction s arbitrary: chunk) (auto simp: Join_Cons genSplit_not_Nil)

lemma Join_tl_genSplit_char:
  "Join (tl (genSplit [c] chunk s)) [c] = drop 1 (dropWhile (\<lambda>x. x \<noteq> c) s)"
  by (induction s arbitrary: chunk) (auto simp: Join_genSplit_char)

lemma length_genSplit_char: "1 < length (genSplit [c] chunk s) \<longleftrightarrow> c \<in> set s"
  by (induction s arbitrary: chunk) (auto simp: genSplit_not_Nil)

section \<open>Properties of the credential store\<close>

lemma new_credential_first_colon:
  "new_credential userpass =
     \<lparr>Username = takeWhile (\<lambda>c. c \<noteq> CHR '':'') userpass,
      Password = drop 1 (dropWhile (\<lambda>c. c \<noteq> CHR '':'') userpass)\<rparr>"
proof (cases "CHR '':'' \<in> set userpass")
  case True
  then have "1 < length (genSplit '':'' [] userpass)"
    by (simp only: length_genSplit_char)
  then show ?thesis
    by (simp add: new_credential_def Split_def hd_genSplit_char Join_tl_genSplit_char Let_def)
next
  case False
  then have "\<not> 1 < length (genSplit '':'' [] userpass)"
    by (simp only: length_genSplit_char) simp
  moreover from False have "drop 1 (dropWhile (\<lambda>c. c \<noteq> CHR '':'') userpass) = []"
    by (induction userpass) auto
  ultimately show ?thesis
    by (simp add: new_credential_def Split_def hd_genSplit_char Let_def)
qed

text \<open>
  The loop of \<open>populate\<close> gives the same store for every order in which it may visit
  the entries of the map.
\<close>

lemma populate_range_populate:
  "distinct (map fst kvs) \<Longrightarrow> populate_range result kvs = populate result (Some (map_of kvs))"
proof (induction kvs arbitrary: result)
  case Nil
  then show ?case by (simp add: populate_def)
next
  case (Cons kv kvs)
  obtain host userpass where kv: "kv = (host, userpass)" by (cases kv)
  from Cons.prems kv have notin: "map_of kvs host = None" and d: "distinct (map fst kvs)"
    by (auto simp: map_of_eq_None_iff)
  show ?case
    using notin by (simp add: kv Cons.IH [OF d] populate_def fun_eq_iff split: option.splits)
qed

lemma populate_None: "populate result None = result"
  by (simp add: populate_def)

lemma creds_populate:
  "creds (populate result (Some m)) host =
     (case m host of None \<Rightarrow> creds result host | Some userpass \<Rightarrow> Some (new_credential userpass))"
  by (simp add: populate_def)

lemma NewAuthenticator_unfold:
  "NewAuthenticator fs credsFilename hostsToCreds =
     (populate (if credsFilename \<noteq> []
                then populate \<lparr>creds = Map.empty\<rparr> (fst (readCreds fs credsFilename))
                else \<lparr>creds = Map.empty\<rparr>) hostsToCreds,
      if credsFilename \<noteq> [] then snd (readCreds fs credsFilename) else None)"
  by (cases hostsToCreds) (simp_all add: NewAuthenticator_def Let_def populate_None split: prod.splits)

text \<open>
  C8. A credential payload is split at its first colon only. The user name is the text
  before the first colon and the password is everything behind it, later colons
  included: the payload \<open>user:pa:ss\<close> gives the user name \<open>user\<close> and the password
  \<open>pa:ss\<close>. A payload without a colon is the user name as a whole, with an empty
  password, and the empty payload gives an empty user name and an empty password.
\<close>

theorem payload_split_first_colon:
  "new_credential userpass =
     \<lparr>Username = takeWhile (\<lambda>c. c \<noteq> CHR '':'') userpass,
      Password = drop 1 (dropWhile (\<lambda>c. c \<noteq> CHR '':'') userpass)\<rparr>
   \<and> (CHR '':'' \<notin> set user \<longrightarrow>
        new_credential (user @ '':'' @ pass) = \<lparr>Username = user, Password = pass\<rparr>)
   \<and> (CHR '':'' \<notin> set userpass \<longrightarrow>
        new_credential userpass = \<lparr>Username = userpass, Password = []\<rparr>)
   \<and> new_credential ''user:pa:ss'' = \<lparr>Username = ''user'', Password = ''pa:ss''\<rparr>
   \<and> new_credential [] = \<lparr>Username = [], Password = []\<rparr>"
proof -
  have a: "CHR '':'' \<notin> set u \<Longrightarrow> takeWhile (\<lambda>c. c \<noteq> CHR '':'') (u @ CHR '':'' # p) = u" for u p
    by (induction u) auto
  have b: "CHR '':'' \<notin> set u \<Longrightarrow> dropWhile (\<lambda>c. c \<noteq> CHR '':'') (u @ CHR '':'' # p) = CHR '':'' # p" for u p
    by (induction u) auto
  have c: "CHR '':'' \<notin> set u \<Longrightarrow> takeWhile (\<lambda>c. c \<noteq> CHR '':'') u = u" for u
    by (induction u) auto
  have d: "CHR '':'' \<notin> set u \<Longrightarrow> dropWhile (\<lambda>c. c \<noteq> CHR '':'') u = []" for u
    by (induction u) auto
  show ?thesis
    by (simp add: new_credential_first_colon a b c d)
qed

theorem payload_split_first_colon_witness:
  "CHR '':'' \<notin> set ''alice'' \<and> CHR '':'' \<notin> set ''bob''
   \<and> new_credential ''alice:s3:cr:et'' = \<lparr>Username = ''alice'', Password = ''s3:cr:et''\<rparr>
   \<and> new_credential ''bob'' = \<lparr>Username = ''bob'', Password = []\<rparr>"
  using payload_split_first_colon [of "''bob''" "''alice''" "''s3:cr:et''"] by simp

text \<open>
  C7. The store is a map, so it holds at most one credential for a host. A host of the
  explicit mapping has the credential of its explicit payload in the store that
  \<open>NewAuthenticator\<close> returns, whatever the file holds for that host: the explicit
  entries are written last and the file never overwrites them. The store built from the
  file line \<open>h a:1\<close> and the explicit entry of \<open>h\<close> with the payload \<open>b:2\<close> maps \<open>h\<close>
  to the user name \<open>b\<close> with the password \<open>2\<close>, and holds nothing else.
\<close>

theorem explicit_mapping_wins:
  "(hostsToCreds = Some m \<and> m host = Some userpass \<longrightarrow>
      creds (fst (NewAuthenticator fs credsFilename hostsToCreds)) host
        = Some (new_credential userpass))
   \<and> creds (fst (NewAuthenticator one_line_file ''creds.txt'' (Some [''h'' \<mapsto> ''b:2''])))
        = [''h'' \<mapsto> \<lparr>Username = ''b'', Password = ''2''\<rparr>]"
proof -
  have "creds (fst (NewAuthenticator one_line_file ''creds.txt'' (Some [''h'' \<mapsto> ''b:2''])))
          = [''h'' \<mapsto> \<lparr>Username = ''b'', Password = ''2''\<rparr>]"
    by (simp add: NewAuthenticator_unfold readCreds_def one_line_file_def line_entry_def
        populate_def new_credential_def Split_def fun_eq_iff)
  then show ?thesis
    by (simp add: NewAuthenticator_unfold creds_populate)
qed

theorem explicit_mapping_wins_witness:
  "creds (fst (NewAuthenticator one_line_file ''creds.txt'' (Some [''h'' \<mapsto> ''b:2'']))) ''h''
     = Some \<lparr>Username = ''b'', Password = ''2''\<rparr>"
  using explicit_mapping_wins [of "Some [''h'' \<mapsto> ''b:2'']" "[''h'' \<mapsto> ''b:2'']" "''h''" "''b:2''"
      one_line_file "''creds.txt''"]
  by (simp add: new_credential_def Split_def)

text \<open>
  C10. When a file name is given and the file cannot be opened, \<open>NewAuthenticator\<close>
  returns the error of opening the file together with an authenticator whose store is
  the result of the explicit pass alone: every entry of the explicit mapping is in the
  returned store although the returned error is not nil.
\<close>

theorem file_error_keeps_explicit:
  assumes "credsFilename \<noteq> []" and "fs credsFilename = Inl err"
  shows "snd (NewAuthenticator fs credsFilename hostsToCreds) = Some err
       \<and> fst (NewAuthenticator fs credsFilename hostsToCreds)
           = populate \<lparr>creds = Map.empty\<rparr> hostsToCreds
       \<and> (hostsToCreds = Some m \<and> m host = Some userpass \<longrightarrow>
            creds (fst (NewAuthenticator fs credsFilename hostsToCreds)) host
              = Some (new_credential userpass))"
  using assms by (simp add: NewAuthenticator_unfold readCreds_def creds_populate) (simp add: populate_def)

theorem file_error_keeps_explicit_witness:
  "''missing.txt'' \<noteq> [] \<and> unreadable ''missing.txt'' = Inl (Error ''open: no such file or directory'')
   \<and> snd (NewAuthenticator unreadable ''missing.txt'' (Some [''h'' \<mapsto> ''b:2'']))
       = Some (Error ''open: no such file or directory'')
   \<and> creds (fst (NewAuthenticator unreadable ''missing.txt'' (Some [''h'' \<mapsto> ''b:2'']))) ''h''
       = Some \<lparr>Username = ''b'', Password = ''2''\<rparr>"
  using file_error_keeps_explicit [of "''missing.txt''" unreadable "Error ''open: no such file or directory''"
      "Some [''h'' \<mapsto> ''b:2'']" "[''h'' \<mapsto> ''b:2'']" "''h''" "''b:2''"]
  by (simp add: unreadable_def new_credential_def Split_def populate_def)

text \<open>
  C3, as the spec states it, fails: with a file that cannot be opened the construction
  returns an error that is not nil, although no explicit source was given at all.
\<close>

theorem missing_file_is_an_error:
  "snd (NewAuthenticator unreadable ''missing.txt'' None) \<noteq> None"
  by (simp add: NewAuthenticator_unfold readCreds_def unreadable_def)

text \<open>
  C3, amended. \<open>NewAuthenticator\<close> returns an error exactly when a file name is given and
  that file cannot be opened, and the error is the one of opening the file; the explicit
  source never produces an error. With such a file the returned store has no credential
  from the file: it is the store that the same explicit source gives with no file name.
\<close>

theorem construction_error_is_open_error:
  "snd (NewAuthenticator fs credsFilename hostsToCreds)
     = (if credsFilename = [] then None
        else case fs credsFilename of Inl err \<Rightarrow> Some err | Inr lines \<Rightarrow> None)
   \<and> fst (NewAuthenticator (fs(credsFilename := Inl err)) credsFilename hostsToCreds)
     = fst (NewAuthenticator fs [] hostsToCreds)"
proof -
  have "readCreds (fs(credsFilename := Inl err)) credsFilename = (None, Some err)"
    by (simp add: readCreds_def)
  then have "fst (NewAuthenticator (fs(credsFilename := Inl err)) credsFilename hostsToCreds)
     = fst (NewAuthenticator fs [] hostsToCreds)"
    by (simp add: NewAuthenticator_unfold populate_None)
  moreover have "snd (NewAuthenticator fs credsFilename hostsToCreds)
     = (if credsFilename = [] then None
        else case fs credsFilename of Inl err \<Rightarrow> Some err | Inr lines \<Rightarrow> None)"
    by (simp add: NewAuthenticator_unfold readCreds_def split: sum.splits)
  ultimately show ?thesis by simp
qed

section \<open>Properties of the challenge parser\<close>

lemma Replace_short: "length s < 2 \<Longrightarrow> Replace s [a, b] new = s"
  by (cases s) (auto split: list.splits)

lemma Replace_no_first: "a \<notin> set s \<Longrightarrow> Replace s (a # old) new = s"
  by (induction s) auto

text \<open>
  On a header of ASCII characters every rune is one byte; a byte that is not valid UTF-8
  reaches the tokens as the encoding of U+FFFD.
\<close>

lemma runes_ascii: "\<forall>c \<in> set s. of_char c < (128::nat) \<Longrightarrow> runes s = map (\<lambda>c. [c]) s"
  by (induction s) (auto simp: byte_in_def)

lemma invalid_byte_replaced:
  "parseWwwAuth (''k=v'' @ [CHR 0xFF]) = Inr [''k'' \<mapsto> ''v'' @ [CHR 0xEF, CHR 0xBF, CHR 0xBD]]"
  by (simp add: parseWwwAuth_def byte_in_def parameter_def Split_def dquote_def backslash_def)

lemma parse_challenge_header:
  "parseWwwAuth challenge_header
     = Inr [''realm'' \<mapsto> quoted ''test'', ''nonce'' \<mapsto> quoted ''abc123'', ''qop'' \<mapsto> quoted ''auth'']"
  by (simp add: challenge_header_def quoted_def parseWwwAuth_def byte_in_def parameter_def Split_def
        dquote_def backslash_def)

lemma parse_qop_list_header:
  "parseWwwAuth qop_list_header
     = Inr [''realm'' \<mapsto> quoted ''r'', ''nonce'' \<mapsto> quoted ''n'',
            ''qop'' \<mapsto> quoted ''auth, auth-int'', ''opaque'' \<mapsto> quoted ''xyz'']"
  by (simp add: qop_list_header_def quoted_def parseWwwAuth_def byte_in_def parameter_def Split_def
        dquote_def backslash_def)

text \<open>
  C5. The claim is that \<open>parseWwwAuth\<close> returns a mapping for every header, without an
  access out of range, also when an \<open>=\<close> is followed by an empty segment or by a segment
  that starts with a space, and that the empty header gives the empty mapping. The last
  part holds. The first does not hold of the source: behind an \<open>=\<close> at the end of the
  header the token is empty and \<open>token[:1]\<close> panics, and behind an \<open>=\<close> that a space
  follows the value is empty and \<open>value[len(value)-1:]\<close> panics.
\<close>

theorem parser_panics:
  "parseWwwAuth ''Digest realm='' = Inl SliceBoundsOutOfRange
   \<and> parseWwwAuth ''Digest realm= x'' = Inl SliceBoundsOutOfRange
   \<and> parseWwwAuth [] = Inr Map.empty"
  by (simp add: parseWwwAuth_def byte_in_def parameter_def Split_def dquote_def backslash_def)

text \<open>
  C6. The header \<open>Digest realm="test", nonce="abc123", qop="auth"\<close> is parsed to the
  mapping of \<open>realm\<close>, \<open>nonce\<close> and \<open>qop\<close> to their values with the surrounding quotes
  kept, and \<open>unquote\<close> of the parsed realm is the bare \<open>test\<close>. For every string,
  \<open>unquote\<close> takes off one pair of surrounding quotes, only when the string has at
  least two characters and begins and ends with a quote, and then replaces each
  backslash followed by a quote by a quote. Nothing else is changed: a string without a
  backslash only loses its pair of quotes, a second pair of quotes stays, and a
  backslash before another character stays.
\<close>

theorem parse_then_unquote:
  "parseWwwAuth challenge_header
     = Inr [''realm'' \<mapsto> quoted ''test'', ''nonce'' \<mapsto> quoted ''abc123'', ''qop'' \<mapsto> quoted ''auth'']
   \<and> unquote (lookup [''realm'' \<mapsto> quoted ''test'', ''nonce'' \<mapsto> quoted ''abc123'',
                       ''qop'' \<mapsto> quoted ''auth''] ''realm'') = ''test''
   \<and> unquote s = Replace (strip_quotes s) [backslash, dquote] [dquote]
   \<and> (backslash \<notin> set s \<longrightarrow> unquote s = strip_quotes s)
   \<and> unquote (quoted (quoted ''x'')) = quoted ''x''
   \<and> unquote (quoted (''a'' @ [backslash, dquote] @ ''b'' @ [backslash] @ ''n'' @ [backslash, backslash]))
       = ''a'' @ [dquote] @ ''b'' @ [backslash] @ ''n'' @ [backslash, backslash]"
proof -
  note p = parse_challenge_header
  have u: "unquote s = Replace (strip_quotes s) [backslash, dquote] [dquote]" for s
    by (simp add: unquote_def strip_quotes_def Replace_short)
  have n: "backslash \<notin> set s \<Longrightarrow> unquote s = strip_quotes s" for s
  proof -
    assume a: "backslash \<notin> set s"
    have "set (butlast (tl s)) \<subseteq> set s"
      by (cases s) (auto dest: in_set_butlastD)
    with a have "backslash \<notin> set (strip_quotes s)"
      by (auto simp: strip_quotes_def)
    then show ?thesis by (simp add: u Replace_no_first)
  qed
  have e1: "unquote (lookup [''realm'' \<mapsto> quoted ''test'', ''nonce'' \<mapsto> quoted ''abc123'',
                       ''qop'' \<mapsto> quoted ''auth''] ''realm'') = ''test''"
    by (simp add: lookup_def unquote_def quoted_def dquote_def backslash_def)
  have e2: "unquote (quoted (quoted ''x'')) = quoted ''x''"
    by (simp add: unquote_def quoted_def dquote_def backslash_def)
  have e3: "unquote (quoted (''a'' @ [backslash, dquote] @ ''b'' @ [backslash] @ ''n'' @ [backslash, backslash]))
       = ''a'' @ [dquote] @ ''b'' @ [backslash] @ ''n'' @ [backslash, backslash]"
    by (simp add: unquote_def quoted_def dquote_def backslash_def)
  show ?thesis using p u n e1 e2 e3 by blast
qed

theorem parse_then_unquote_witness:
  "backslash \<notin> set (quoted ''test'') \<and> unquote (quoted ''test'') = ''test''"
  using parse_then_unquote [of "quoted ''test''"]
  by (simp add: strip_quotes_def quoted_def dquote_def backslash_def)

section \<open>Properties of the Digest engine\<close>

lemma valueOrDefault_eq: "valueOrDefault v def = (if v = [] then def else v)"
  by (simp add: valueOrDefault_def)

lemma digestValues_success:
  assumes "Header r = Some header"
      and "parseWwwAuth (header ''Www-Authenticate'') = Inr params"
      and "algorithms lib (spec_algorithm params) = Some hash"
      and "generateClientNonce lib = Inr cnonce"
      and "spec_qop params \<noteq> ''auth-int''"
  shows "digestValues lib cred req (Some r) =
           Inr (Some \<lparr>out_username = spec_username hash cred params,
                      out_realm = lookup params ''realm'',
                      out_uri = RequestURI req,
                      out_algorithm = spec_algorithm params,
                      out_nonce = lookup params ''nonce'',
                      out_nc = ''00000001'',
                      out_cnonce = cnonce,
                      out_qop = spec_qop params,
                      out_response =
                        spec_response hash
                          (spec_A1 hash (spec_sess params) (Username cred) (lookup params ''realm'')
                             (Password cred) (lookup params ''nonce'') cnonce)
                          (spec_A2 (Method req) (RequestURI req))
                          (lookup params ''nonce'') cnonce (spec_qop params),
                      out_userhash = (if lookup params ''userhash'' = [] then ''false''
                                      else lookup params ''userhash''),
                      out_opaque = lookup params ''opaque''\<rparr>)"
proof -
  have uh: "(if lookup params ''userhash'' = [] then ''false'' else lookup params ''userhash'') = ''true''
            \<longleftrightarrow> lookup params ''userhash'' = ''true''"
    by simp
  show ?thesis
    using assms
    unfolding digestValues_def spec_algorithm_def spec_sess_def spec_qop_def
    by (simp add: Let_def valueOrDefault_eq spec_A1_def spec_A2_def spec_response_def
        spec_username_def keyedDigest_def quoted_def uh split del: if_split cong: if_cong)
qed

text \<open>
  The conditions of \<open>digestValues_success\<close> are exactly those under which the engine
  returns a header.
\<close>

lemma digest_success_conditions:
  assumes "getDigestAuth lib cred req resp = Inr ret" and "ret \<noteq> []"
  shows "\<exists>r header params hash cnonce.
           resp = Some r \<and> Header r = Some header
         \<and> parseWwwAuth (header ''Www-Authenticate'') = Inr params
         \<and> algorithms lib (spec_algorithm params) = Some hash
         \<and> generateClientNonce lib = Inr cnonce
         \<and> spec_qop params \<noteq> ''auth-int''"
proof -
  from assms obtain d where d: "digestValues lib cred req resp = Inr (Some d)"
    by (auto simp: getDigestAuth_def split: sum.splits option.splits)
  then obtain r where r: "resp = Some r"
    by (cases resp) (auto simp: digestValues_def)
  with d obtain header where h: "Header r = Some header"
    by (cases "Header r") (auto simp: digestValues_def)
  with d r obtain params where p: "parseWwwAuth (header ''Www-Authenticate'') = Inr params"
    by (cases "parseWwwAuth (header ''Www-Authenticate'')") (auto simp: digestValues_def)
  have d': "digestValues lib cred req (Some r) = Inr (Some d)"
    using d r by simp
  obtain hash where a: "algorithms lib (spec_algorithm params) = Some hash"
    using d' h p
    by (cases "algorithms lib (spec_algorithm params)")
       (auto simp: digestValues_def spec_algorithm_def Let_def valueOrDefault_eq
             split del: if_split cong: if_cong)
  obtain cnonce where c: "generateClientNonce lib = Inr cnonce"
    using d' h p a
    by (cases "generateClientNonce lib")
       (auto simp: digestValues_def spec_algorithm_def Let_def valueOrDefault_eq
             split del: if_split cong: if_cong)
  have "spec_qop params \<noteq> ''auth-int''"
  proof
    assume "spec_qop params = ''auth-int''"
    with d' h p a c show False
      by (simp add: digestValues_def spec_algorithm_def spec_qop_def Let_def valueOrDefault_eq
             split del: if_split cong: if_cong)
  qed
  with r h p a c show ?thesis by blast
qed

text \<open>The header that a successful run returns, field by field.\<close>

lemma getDigestAuth_success:
  assumes "Header r = Some header"
      and "parseWwwAuth (header ''Www-Authenticate'') = Inr params"
      and "algorithms lib (spec_algorithm params) = Some hash"
      and "generateClientNonce lib = Inr cnonce"
      and "spec_qop params \<noteq> ''auth-int''"
  shows "getDigestAuth lib cred req (Some r) =
           Inr (''Digest username='' @ quoted (spec_username hash cred params)
                @ '', realm='' @ lookup params ''realm''
                @ '', uri='' @ quoted (RequestURI req)
                @ '', algorithm='' @ spec_algorithm params
                @ '', nonce='' @ lookup params ''nonce''
                @ '', nc=00000001''
                @ '', cnonce='' @ quoted cnonce
                @ '', qop='' @ spec_qop params
                @ '', response='' @ spec_response hash
                     (spec_A1 hash (spec_sess params) (Username cred) (lookup params ''realm'')
                        (Password cred) (lookup params ''nonce'') cnonce)
                     (spec_A2 (Method req) (RequestURI req))
                     (lookup params ''nonce'') cnonce (spec_qop params)
                @ '', userhash='' @ (if lookup params ''userhash'' = [] then ''false''
                                     else lookup params ''userhash'')
                @ (if lookup params ''opaque'' = [] then []
                   else '', opaque='' @ lookup params ''opaque''))"
  by (simp add: getDigestAuth_def digestValues_success [OF assms] digestHeader_def Let_def quoted_def)

text \<open>Facts of the concrete inputs.\<close>

lemma challenge_of_header:
  "Header (challenge h) = Some (www_authenticate h)"
  "www_authenticate h ''Www-Authenticate'' = h"
  by (simp_all add: challenge_def www_authenticate_def)

lemma shown_lib_facts:
  "algorithms shown_lib ''MD5'' = Some (shown ''md5'')"
  "generateClientNonce shown_lib = Inr ''b64[rnd]''"
  by (simp_all add: algorithms_def generateClientNonce_def shown_lib_def shown_def)

lemma challenge_header_facts:
  fixes params
  defines "params \<equiv> [''realm'' \<mapsto> quoted ''test'', ''nonce'' \<mapsto> quoted ''abc123'',
                       ''qop'' \<mapsto> quoted ''auth'']"
  shows "spec_algorithm params = ''MD5''"
    and "\<not> spec_sess params"
    and "spec_qop params = quoted ''auth''"
    and "spec_username (shown ''md5'') mufasa params = ''Mufasa''"
    and "lookup params ''realm'' = quoted ''test''"
    and "lookup params ''nonce'' = quoted ''abc123''"
    and "lookup params ''algorithm'' = []"
    and "lookup params ''userhash'' = []"
    and "lookup params ''opaque'' = []"
  by (simp_all add: params_def spec_algorithm_def spec_sess_def spec_qop_def spec_username_def
      lookup_def HasSuffix_def Split_def quoted_def dquote_def mufasa_def)

lemma qop_list_header_facts:
  fixes params
  defines "params \<equiv> [''realm'' \<mapsto> quoted ''r'', ''nonce'' \<mapsto> quoted ''n'',
                       ''qop'' \<mapsto> quoted ''auth, auth-int'', ''opaque'' \<mapsto> quoted ''xyz'']"
  shows "spec_algorithm params = ''MD5''"
    and "\<not> spec_sess params"
    and "spec_qop params = quoted ''auth''"
    and "spec_username (shown ''md5'') mufasa params = ''Mufasa''"
    and "lookup params ''realm'' = quoted ''r''"
    and "lookup params ''nonce'' = quoted ''n''"
    and "lookup params ''algorithm'' = []"
    and "lookup params ''userhash'' = []"
    and "lookup params ''opaque'' = quoted ''xyz''"
  by (simp_all add: params_def spec_algorithm_def spec_sess_def spec_qop_def spec_username_def
      lookup_def HasSuffix_def Split_def quoted_def dquote_def mufasa_def)

lemma spec_response_shown:
  "spec_response (shown ''md5'')
     (spec_A1 (shown ''md5'') False (Username mufasa) (quoted realm) (Password mufasa)
        (quoted nonce) ''b64[rnd]'')
     (spec_A2 (Method index_request) uri)
     (quoted nonce) ''b64[rnd]'' (quoted ''auth'')
   = quoted (''md5[md5[Mufasa:'' @ unquote (quoted realm) @ '':Circle of Life]:''
             @ unquote (quoted nonce)
             @ '':00000001:b64[rnd]:auth:md5[GET:'' @ uri @ '']]'')"
  by (simp add: spec_response_def spec_A1_def spec_A2_def mufasa_def index_request_def
      shown_def) (simp add: unquote_def quoted_def dquote_def backslash_def)

lemma unquote_quoted_examples:
  "unquote (quoted ''test'') = ''test''" "unquote (quoted ''abc123'') = ''abc123''"
  "unquote (quoted ''r'') = ''r''" "unquote (quoted ''n'') = ''n''"
  "unquote (quoted ''xyz'') = ''xyz''"
  by (simp_all add: unquote_def quoted_def dquote_def backslash_def)

lemma quoted_auth_not_auth_int: "quoted ''auth'' \<noteq> ''auth-int''"
  by (simp add: quoted_def dquote_def)

text \<open>
  C1. Whenever the Digest engine succeeds (the response has a header container, the
  challenge is parsed, the algorithm is resolved, randomness is available and the chosen
  qop is not \<open>auth-int\<close>), the header value it returns has, behind the qop field and
  before the userhash field, the field \<open>response\<close>, and its value is the quoted hash
  of: the hash of A1, the unquoted nonce, the nonce count \<open>00000001\<close>, the unquoted
  client nonce, the unquoted qop and the hash of A2, joined by colons. Outside session
  mode A1 is the unquoted user name, the unquoted realm and the password, joined by
  colons; in session mode A1 is the hash of that, the unquoted nonce and the unquoted
  client nonce, joined by colons. A2 is the method, \<open>GET\<close> when it is empty, a colon and
  the request target. The response is thus a function of the inputs and the client nonce.
\<close>

theorem digest_response_rfc7616:
  assumes "Header r = Some header"
      and "parseWwwAuth (header ''Www-Authenticate'') = Inr params"
      and "algorithms lib (spec_algorithm params) = Some hash"
      and "generateClientNonce lib = Inr cnonce"
      and "spec_qop params \<noteq> ''auth-int''"
  shows "getDigestAuth lib cred req (Some r) =
           Inr (''Digest username='' @ quoted (spec_username hash cred params)
                @ '', realm='' @ lookup params ''realm''
                @ '', uri='' @ quoted (RequestURI req)
                @ '', algorithm='' @ spec_algorithm params
                @ '', nonce='' @ lookup params ''nonce''
                @ '', nc=00000001''
                @ '', cnonce='' @ quoted cnonce
                @ '', qop='' @ spec_qop params
                @ '', response='' @ spec_response hash
                     (spec_A1 hash (spec_sess params) (Username cred) (lookup params ''realm'')
                        (Password cred) (lookup params ''nonce'') cnonce)
                     (spec_A2 (Method req) (RequestURI req))
                     (lookup params ''nonce'') cnonce (spec_qop params)
                @ '', userhash='' @ (if lookup params ''userhash'' = [] then ''false''
                                     else lookup params ''userhash'')
                @ (if lookup params ''opaque'' = [] then []
                   else '', opaque='' @ lookup params ''opaque''))"
  by (rule getDigestAuth_success [OF assms])

theorem digest_response_rfc7616_witness:
  "Header (challenge challenge_header) = Some (www_authenticate challenge_header)
   \<and> parseWwwAuth (www_authenticate challenge_header ''Www-Authenticate'')
       = Inr [''realm'' \<mapsto> quoted ''test'', ''nonce'' \<mapsto> quoted ''abc123'', ''qop'' \<mapsto> quoted ''auth'']
   \<and> algorithms shown_lib ''MD5'' = Some (shown ''md5'')
   \<and> generateClientNonce shown_lib = Inr ''b64[rnd]''
   \<and> getDigestAuth shown_lib mufasa index_request (Some (challenge challenge_header))
     = Inr (''Digest username='' @ quoted ''Mufasa'' @ '', realm='' @ quoted ''test''
            @ '', uri='' @ quoted ''/dir/index.html'' @ '', algorithm=MD5, nonce='' @ quoted ''abc123''
            @ '', nc=00000001, cnonce='' @ quoted ''b64[rnd]'' @ '', qop='' @ quoted ''auth''
            @ '', response=''
            @ quoted ''md5[md5[Mufasa:test:Circle of Life]:abc123:00000001:b64[rnd]:auth:md5[GET:/dir/index.html]]''
            @ '', userhash=false'')"
proof -
  let ?params = "[''realm'' \<mapsto> quoted ''test'', ''nonce'' \<mapsto> quoted ''abc123'', ''qop'' \<mapsto> quoted ''auth'']"
  note f = challenge_header_facts
  have h1: "Header (challenge challenge_header) = Some (www_authenticate challenge_header)"
    by (rule challenge_of_header)
  have h2: "parseWwwAuth (www_authenticate challenge_header ''Www-Authenticate'') = Inr ?params"
    by (simp add: parse_challenge_header challenge_of_header)
  have h3: "algorithms shown_lib (spec_algorithm ?params) = Some (shown ''md5'')"
    by (simp add: f shown_lib_facts)
  have h4: "generateClientNonce shown_lib = Inr ''b64[rnd]''"
    by (rule shown_lib_facts)
  have h5: "spec_qop ?params \<noteq> ''auth-int''"
    by (simp add: f quoted_auth_not_auth_int)
  have uri: "RequestURI index_request = ''/dir/index.html''"
    by (simp add: index_request_def)
  from digest_response_rfc7616 [OF h1 h2 h3 h4 h5, of mufasa index_request]
  have "getDigestAuth shown_lib mufasa index_request (Some (challenge challenge_header))
     = Inr (''Digest username='' @ quoted ''Mufasa'' @ '', realm='' @ quoted ''test''
            @ '', uri='' @ quoted ''/dir/index.html'' @ '', algorithm=MD5, nonce='' @ quoted ''abc123''
            @ '', nc=00000001, cnonce='' @ quoted ''b64[rnd]'' @ '', qop='' @ quoted ''auth''
            @ '', response=''
            @ quoted ''md5[md5[Mufasa:test:Circle of Life]:abc123:00000001:b64[rnd]:auth:md5[GET:/dir/index.html]]''
            @ '', userhash=false'')"
    by (simp add: f spec_response_shown unquote_quoted_examples uri)
  with h1 h2 h4 shown_lib_facts show ?thesis
    by simp
qed

text \<open>
  C4. The claim is that the engine returns the empty string for every challenge whose
  qop selects \<open>auth-int\<close>, the wire form \<open>qop="auth-int"\<close> included. The source rejects
  the unquoted form \<open>qop=auth-int\<close> only: the parsed value of the quoted form keeps its
  quotes, the comparison with the bare word \<open>auth-int\<close> fails, and the engine returns a
  header whose qop is \<open>"auth-int"\<close>, with the A2 of plain \<open>auth\<close>.
\<close>

theorem quoted_auth_int_not_rejected:
  "getDigestAuth shown_lib mufasa index_request (Some (challenge auth_int_header))
     = Inr (''Digest username='' @ quoted ''Mufasa'' @ '', realm='' @ quoted ''r''
            @ '', uri='' @ quoted ''/dir/index.html'' @ '', algorithm=MD5, nonce='' @ quoted ''n''
            @ '', nc=00000001, cnonce='' @ quoted ''b64[rnd]'' @ '', qop='' @ quoted ''auth-int''
            @ '', response=''
            @ quoted ''md5[md5[Mufasa:r:Circle of Life]:n:00000001:b64[rnd]:auth-int:md5[GET:/dir/index.html]]''
            @ '', userhash=false'')
   \<and> getDigestAuth shown_lib mufasa index_request (Some (challenge plain_auth_int_header)) = Inr []"
proof -
  have p1: "parseWwwAuth auth_int_header
     = Inr [''realm'' \<mapsto> quoted ''r'', ''nonce'' \<mapsto> quoted ''n'', ''qop'' \<mapsto> quoted ''auth-int'']"
    by (simp add: auth_int_header_def quoted_def parseWwwAuth_def byte_in_def parameter_def Split_def
        dquote_def backslash_def)
  have p2: "parseWwwAuth plain_auth_int_header
     = Inr [''realm'' \<mapsto> quoted ''r'', ''nonce'' \<mapsto> quoted ''n'', ''qop'' \<mapsto> ''auth-int'']"
    by (simp add: plain_auth_int_header_def quoted_def parseWwwAuth_def byte_in_def parameter_def Split_def
        dquote_def backslash_def)
  have "getDigestAuth shown_lib mufasa index_request (Some (challenge auth_int_header))
     = Inr (''Digest username='' @ quoted ''Mufasa'' @ '', realm='' @ quoted ''r''
            @ '', uri='' @ quoted ''/dir/index.html'' @ '', algorithm=MD5, nonce='' @ quoted ''n''
            @ '', nc=00000001, cnonce='' @ quoted ''b64[rnd]'' @ '', qop='' @ quoted ''auth-int''
            @ '', response=''
            @ quoted ''md5[md5[Mufasa:r:Circle of Life]:n:00000001:b64[rnd]:auth-int:md5[GET:/dir/index.html]]''
            @ '', userhash=false'')"
    by (simp add: getDigestAuth_def digestValues_def challenge_def www_authenticate_def
        p1 lookup_def valueOrDefault_def HasSuffix_def algorithms_def
        shown_lib_def generateClientNonce_def Split_def Let_def unquote_def keyedDigest_def
        digestHeader_def mufasa_def index_request_def shown_def quoted_def dquote_def backslash_def)
  moreover have "getDigestAuth shown_lib mufasa index_request (Some (challenge plain_auth_int_header)) = Inr []"
    by (simp add: getDigestAuth_def digestValues_def challenge_def www_authenticate_def
        p2 lookup_def valueOrDefault_def HasSuffix_def algorithms_def
        shown_lib_def generateClientNonce_def Split_def Let_def)
  ultimately show ?thesis by simp
qed

text \<open>
  C9, as the spec states it, fails: the qop field is not the parsed value in raw form.
  For a challenge that offers the list \<open>"auth, auth-int"\<close> the parsed value is the whole
  list and the field that goes out is \<open>"auth"\<close>, the first option.
\<close>

theorem qop_not_passed_through_raw:
  "parseWwwAuth qop_list_header
     = Inr [''realm'' \<mapsto> quoted ''r'', ''nonce'' \<mapsto> quoted ''n'',
            ''qop'' \<mapsto> quoted ''auth, auth-int'', ''opaque'' \<mapsto> quoted ''xyz'']
   \<and> getDigestAuth shown_lib mufasa index_request (Some (challenge qop_list_header))
     = Inr (''Digest username='' @ quoted ''Mufasa'' @ '', realm='' @ quoted ''r''
            @ '', uri='' @ quoted ''/dir/index.html'' @ '', algorithm=MD5, nonce='' @ quoted ''n''
            @ '', nc=00000001, cnonce='' @ quoted ''b64[rnd]'' @ '', qop='' @ quoted ''auth''
            @ '', response=''
            @ quoted ''md5[md5[Mufasa:r:Circle of Life]:n:00000001:b64[rnd]:auth:md5[GET:/dir/index.html]]''
            @ '', userhash=false, opaque='' @ quoted ''xyz'')
   \<and> quoted ''auth'' \<noteq> quoted ''auth, auth-int''"
proof -
  have "getDigestAuth shown_lib mufasa index_request (Some (challenge qop_list_header))
     = Inr (''Digest username='' @ quoted ''Mufasa'' @ '', realm='' @ quoted ''r''
            @ '', uri='' @ quoted ''/dir/index.html'' @ '', algorithm=MD5, nonce='' @ quoted ''n''
            @ '', nc=00000001, cnonce='' @ quoted ''b64[rnd]'' @ '', qop='' @ quoted ''auth''
            @ '', response=''
            @ quoted ''md5[md5[Mufasa:r:Circle of Life]:n:00000001:b64[rnd]:auth:md5[GET:/dir/index.html]]''
            @ '', userhash=false, opaque='' @ quoted ''xyz'')"
    by (simp add: getDigestAuth_def digestValues_def challenge_def www_authenticate_def
        parse_qop_list_header lookup_def valueOrDefault_def HasSuffix_def algorithms_def
        shown_lib_def generateClientNonce_def Split_def Let_def unquote_def keyedDigest_def
        digestHeader_def mufasa_def index_request_def shown_def quoted_def dquote_def backslash_def)
  then show ?thesis
    by (simp add: parse_qop_list_header) (simp add: quoted_def)
qed

text \<open>
  C9, amended. Whenever the Digest engine succeeds, the header value is \<open>Digest\<close> and the
  fields \<open>username\<close>, \<open>realm\<close>, \<open>uri\<close>, \<open>algorithm\<close>, \<open>nonce\<close>, \<open>nc\<close>, \<open>cnonce\<close>, \<open>qop\<close>,
  \<open>response\<close>, \<open>userhash\<close> in this order, separated by a comma and a space. The engine
  puts quotes around the user name, the uri, the client nonce and the response. The
  realm and the nonce are the parsed values as they are; \<open>nc\<close> is \<open>00000001\<close>; the qop
  is the first option of the parsed value (\<open>auth\<close> when absent), with the closing quote
  put back when several options were listed; \<open>userhash\<close> is the parsed value, or
  \<open>false\<close> when absent; the algorithm is the parsed value, or \<open>MD5\<close> when absent,
  for a value that does not end in \<open>-sess\<close>. An \<open>opaque\<close> field with the parsed value
  as it is follows when the opaque value of the challenge, unquoted, is not empty, and
  no \<open>opaque\<close> field follows when the challenge has no opaque value.
\<close>

theorem digest_header_layout:
  assumes "Header r = Some header"
      and "parseWwwAuth (header ''Www-Authenticate'') = Inr params"
      and "algorithms lib (spec_algorithm params) = Some hash"
      and "generateClientNonce lib = Inr cnonce"
      and "spec_qop params \<noteq> ''auth-int''"
  shows "\<exists>algorithm opaque_field.
           getDigestAuth lib cred req (Some r) =
             Inr (''Digest username='' @ quoted (spec_username hash cred params)
                  @ '', realm='' @ lookup params ''realm''
                  @ '', uri='' @ quoted (RequestURI req)
                  @ '', algorithm='' @ algorithm
                  @ '', nonce='' @ lookup params ''nonce''
                  @ '', nc=00000001''
                  @ '', cnonce='' @ quoted cnonce
                  @ '', qop='' @ spec_qop params
                  @ '', response='' @ spec_response hash
                       (spec_A1 hash (spec_sess params) (Username cred) (lookup params ''realm'')
                          (Password cred) (lookup params ''nonce'') cnonce)
                       (spec_A2 (Method req) (RequestURI req))
                       (lookup params ''nonce'') cnonce (spec_qop params)
                  @ '', userhash='' @ (if lookup params ''userhash'' = [] then ''false''
                                       else lookup params ''userhash'')
                  @ opaque_field)
         \<and> (\<not> spec_sess params \<longrightarrow>
               algorithm = (if lookup params ''algorithm'' = [] then ''MD5''
                            else lookup params ''algorithm''))
         \<and> (lookup params ''opaque'' = [] \<longrightarrow> opaque_field = [])
         \<and> (unquote (lookup params ''opaque'') \<noteq> [] \<longrightarrow>
               opaque_field = '', opaque='' @ lookup params ''opaque'')"
proof -
  have a: "\<not> spec_sess params \<Longrightarrow>
          spec_algorithm params = (if lookup params ''algorithm'' = [] then ''MD5''
                                   else lookup params ''algorithm'')"
    by (simp add: spec_sess_def spec_algorithm_def)
  have o: "unquote (lookup params ''opaque'') \<noteq> [] \<Longrightarrow> lookup params ''opaque'' \<noteq> []"
    by (auto simp: unquote_def)
  let ?opaque_field = "if lookup params ''opaque'' = [] then []
                       else '', opaque='' @ lookup params ''opaque''"
  have c1: "\<not> spec_sess params \<longrightarrow>
              spec_algorithm params = (if lookup params ''algorithm'' = [] then ''MD5''
                                       else lookup params ''algorithm'')"
    using a by simp
  have c2: "lookup params ''opaque'' = [] \<longrightarrow> ?opaque_field = []"
    by simp
  have c3: "unquote (lookup params ''opaque'') \<noteq> [] \<longrightarrow>
              ?opaque_field = '', opaque='' @ lookup params ''opaque''"
    using o by simp
  from getDigestAuth_success [OF assms, of cred req] c1 c2 c3 show ?thesis
    by blast
qed

theorem digest_header_layout_witness:
  "Header (challenge qop_list_header) = Some (www_authenticate qop_list_header)
   \<and> parseWwwAuth (www_authenticate qop_list_header ''Www-Authenticate'')
     = Inr [''realm'' \<mapsto> quoted ''r'', ''nonce'' \<mapsto> quoted ''n'',
            ''qop'' \<mapsto> quoted ''auth, auth-int'', ''opaque'' \<mapsto> quoted ''xyz'']
   \<and> Header (challenge challenge_header) = Some (www_authenticate challenge_header)
   \<and> parseWwwAuth (www_authenticate challenge_header ''Www-Authenticate'')
       = Inr [''realm'' \<mapsto> quoted ''test'', ''nonce'' \<mapsto> quoted ''abc123'', ''qop'' \<mapsto> quoted ''auth'']
   \<and> algorithms shown_lib ''MD5'' = Some (shown ''md5'')
   \<and> generateClientNonce shown_lib = Inr ''b64[rnd]''
   \<and> unquote (quoted ''xyz'') \<noteq> []
   \<and> getDigestAuth shown_lib mufasa index_request (Some (challenge qop_list_header))
     = Inr (''Digest username='' @ quoted ''Mufasa'' @ '', realm='' @ quoted ''r''
            @ '', uri='' @ quoted ''/dir/index.html'' @ '', algorithm=MD5, nonce='' @ quoted ''n''
            @ '', nc=00000001, cnonce='' @ quoted ''b64[rnd]'' @ '', qop='' @ quoted ''auth''
            @ '', response=''
            @ quoted ''md5[md5[Mufasa:r:Circle of Life]:n:00000001:b64[rnd]:auth:md5[GET:/dir/index.html]]''
            @ '', userhash=false, opaque='' @ quoted ''xyz'')
   \<and> getDigestAuth shown_lib mufasa index_request (Some (challenge challenge_header))
     = Inr (''Digest username='' @ quoted ''Mufasa'' @ '', realm='' @ quoted ''test''
            @ '', uri='' @ quoted ''/dir/index.html'' @ '', algorithm=MD5, nonce='' @ quoted ''abc123''
            @ '', nc=00000001, cnonce='' @ quoted ''b64[rnd]'' @ '', qop='' @ quoted ''auth''
            @ '', response=''
            @ quoted ''md5[md5[Mufasa:test:Circle of Life]:abc123:00000001:b64[rnd]:auth:md5[GET:/dir/index.html]]''
            @ '', userhash=false'')"
proof -
  let ?p = "[''realm'' \<mapsto> quoted ''r'', ''nonce'' \<mapsto> quoted ''n'',
            ''qop'' \<mapsto> quoted ''auth, auth-int'', ''opaque'' \<mapsto> quoted ''xyz'']"
  let ?q = "[''realm'' \<mapsto> quoted ''test'', ''nonce'' \<mapsto> quoted ''abc123'', ''qop'' \<mapsto> quoted ''auth'']"
  note f = qop_list_header_facts
  note g = challenge_header_facts
  have uri: "RequestURI index_request = ''/dir/index.html''"
    by (simp add: index_request_def)
  have h4: "generateClientNonce shown_lib = Inr ''b64[rnd]''"
    by (rule shown_lib_facts)
  have p1: "Header (challenge qop_list_header) = Some (www_authenticate qop_list_header)"
    by (rule challenge_of_header)
  have p2: "parseWwwAuth (www_authenticate qop_list_header ''Www-Authenticate'') = Inr ?p"
    by (simp add: parse_qop_list_header challenge_of_header)
  have p3: "algorithms shown_lib (spec_algorithm ?p) = Some (shown ''md5'')"
    by (simp add: f shown_lib_facts)
  have p5: "spec_qop ?p \<noteq> ''auth-int''"
    by (simp add: f quoted_auth_not_auth_int)
  have q1: "Header (challenge challenge_header) = Some (www_authenticate challenge_header)"
    by (rule challenge_of_header)
  have q2: "parseWwwAuth (www_authenticate challenge_header ''Www-Authenticate'') = Inr ?q"
    by (simp add: parse_challenge_header challenge_of_header)
  have q3: "algorithms shown_lib (spec_algorithm ?q) = Some (shown ''md5'')"
    by (simp add: g shown_lib_facts)
  have q5: "spec_qop ?q \<noteq> ''auth-int''"
    by (simp add: g quoted_auth_not_auth_int)
  have ne: "unquote (quoted ''xyz'') \<noteq> []"
    by (simp add: unquote_quoted_examples)
  have "getDigestAuth shown_lib mufasa index_request (Some (challenge qop_list_header))
     = Inr (''Digest username='' @ quoted ''Mufasa'' @ '', realm='' @ quoted ''r''
            @ '', uri='' @ quoted ''/dir/index.html'' @ '', algorithm=MD5, nonce='' @ quoted ''n''
            @ '', nc=00000001, cnonce='' @ quoted ''b64[rnd]'' @ '', qop='' @ quoted ''auth''
            @ '', response=''
            @ quoted ''md5[md5[Mufasa:r:Circle of Life]:n:00000001:b64[rnd]:auth:md5[GET:/dir/index.html]]''
            @ '', userhash=false, opaque='' @ quoted ''xyz'')"
    using digest_header_layout [OF p1 p2 p3 h4 p5, of mufasa index_request] ne
    by (auto simp: f spec_response_shown unquote_quoted_examples uri)
  moreover have "getDigestAuth shown_lib mufasa index_request (Some (challenge challenge_header))
     = Inr (''Digest username='' @ quoted ''Mufasa'' @ '', realm='' @ quoted ''test''
            @ '', uri='' @ quoted ''/dir/index.html'' @ '', algorithm=MD5, nonce='' @ quoted ''abc123''
            @ '', nc=00000001, cnonce='' @ quoted ''b64[rnd]'' @ '', qop='' @ quoted ''auth''
            @ '', response=''
            @ quoted ''md5[md5[Mufasa:test:Circle of Life]:abc123:00000001:b64[rnd]:auth:md5[GET:/dir/index.html]]''
            @ '', userhash=false'')"
    using digest_header_layout [OF q1 q2 q3 h4 q5, of mufasa index_request]
    by (auto simp: g spec_response_shown unquote_quoted_examples uri)
  ultimately show ?thesis
    using p1 p2 q1 q2 h4 ne shown_lib_facts by simp
qed

text \<open>
  For a challenge with an algorithm in session mode the engine sends the name without
  the suffix, while it computes A1 in session mode.
\<close>

lemma sess_suffix_not_sent:
  "getDigestAuth shown_lib mufasa index_request (Some (challenge sess_header))
     = Inr (''Digest username='' @ quoted ''sha256[Mufasa:r]'' @ '', realm='' @ quoted ''r''
            @ '', uri='' @ quoted ''/dir/index.html'' @ '', algorithm=SHA-256, nonce='' @ quoted ''n''
            @ '', nc=00000001, cnonce='' @ quoted ''b64[rnd]'' @ '', qop=auth, response=''
            @ quoted (''sha256[sha256[sha256[Mufasa:r:Circle of Life]:n:b64[rnd]]''
                      @ '':n:00000001:b64[rnd]:auth:sha256[GET:/dir/index.html]]'')
            @ '', userhash=true'')"
proof -
  have p: "parseWwwAuth sess_header
     = Inr [''realm'' \<mapsto> quoted ''r'', ''nonce'' \<mapsto> quoted ''n'',
            ''algorithm'' \<mapsto> ''SHA-256-sess'', ''qop'' \<mapsto> ''auth'', ''userhash'' \<mapsto> ''true'']"
    by (simp add: sess_header_def quoted_def parseWwwAuth_def byte_in_def parameter_def Split_def
        dquote_def backslash_def)
  show ?thesis
    by (simp add: getDigestAuth_def digestValues_def challenge_def www_authenticate_def
        p lookup_def valueOrDefault_def HasSuffix_def algorithms_def
        shown_lib_def generateClientNonce_def Split_def Let_def unquote_def keyedDigest_def
        digestHeader_def mufasa_def index_request_def shown_def quoted_def dquote_def backslash_def)
qed

text \<open>
  For a challenge whose opaque value is the empty quoted string the parsed value is the
  two quotes, which is not the empty string, and the engine sends an \<open>opaque\<close> field
  with them.
\<close>

lemma empty_quoted_opaque_sent:
  "getDigestAuth shown_lib mufasa index_request (Some (challenge empty_opaque_header))
     = Inr (''Digest username='' @ quoted ''Mufasa'' @ '', realm='' @ quoted ''r''
            @ '', uri='' @ quoted ''/dir/index.html'' @ '', algorithm=MD5, nonce='' @ quoted ''n''
            @ '', nc=00000001, cnonce='' @ quoted ''b64[rnd]'' @ '', qop=auth, response=''
            @ quoted ''md5[md5[Mufasa:r:Circle of Life]:n:00000001:b64[rnd]:auth:md5[GET:/dir/index.html]]''
            @ '', userhash=false, opaque='' @ quoted [])"
proof -
  have p: "parseWwwAuth empty_opaque_header
     = Inr [''realm'' \<mapsto> quoted ''r'', ''nonce'' \<mapsto> quoted ''n'', ''opaque'' \<mapsto> quoted []]"
    by (simp add: empty_opaque_header_def quoted_def parseWwwAuth_def byte_in_def parameter_def
        Split_def dquote_def backslash_def)
  show ?thesis
    by (simp add: getDigestAuth_def digestValues_def challenge_def www_authenticate_def
        p lookup_def valueOrDefault_def HasSuffix_def algorithms_def
        shown_lib_def generateClientNonce_def Split_def Let_def unquote_def keyedDigest_def
        digestHeader_def mufasa_def index_request_def shown_def quoted_def dquote_def backslash_def)
qed

section \<open>Properties of the dispatch\<close>

lemma hd_digestHeader: "hd (digestHeader d) = CHR ''D''"
  by (simp add: digestHeader_def Let_def)

lemma hd_getBasicAuth: "hd (getBasicAuth lib cred) = CHR ''B'' \<and> getBasicAuth lib cred \<noteq> []"
  by (simp add: getBasicAuth_def SetBasicAuth_def)

lemma getDigestAuth_not_Basic: "getDigestAuth lib cred req resp \<noteq> Inr (getBasicAuth lib cred')"
proof (cases "digestValues lib cred req resp")
  case (Inl p)
  then show ?thesis by (simp add: getDigestAuth_def)
next
  case (Inr v)
  show ?thesis
  proof (cases v)
    case None
    with Inr hd_getBasicAuth [of lib cred'] show ?thesis
      by (auto simp: getDigestAuth_def)
  next
    case (Some d)
    have "hd (digestHeader d) \<noteq> hd (getBasicAuth lib cred')"
      by (simp add: hd_digestHeader hd_getBasicAuth)
    then have "digestHeader d \<noteq> getBasicAuth lib cred'"
      by auto
    with Inr Some show ?thesis
      by (simp add: getDigestAuth_def)
  qed
qed

text \<open>
  C2. \<open>TryGetAuth\<close> is a case analysis with three branches. Without a credential for
  the host name of the request it returns the empty string, whatever the response is.
  With a credential and a response that is absent or has no header container it returns
  the Basic header. With a credential and a usable response it returns the Basic header
  exactly when the first word of the \<open>Www-Authenticate\<close> value, up to the first space,
  is \<open>Basic\<close>; it returns the result of the Digest engine when that word is \<open>Digest\<close>;
  and it returns the empty string for every other word, the empty one included. The
  Basic header is \<open>Basic\<close>, a space and the base64 encoding of the user name, a colon and
  the password.
\<close>

theorem TryGetAuth_dispatch:
  "(creds auther (Hostname req) = None \<longrightarrow> TryGetAuth lib auther req resp = Inr [])
   \<and> (creds auther (Hostname req) = Some cred \<and> resp = None \<longrightarrow>
        TryGetAuth lib auther req resp = Inr (getBasicAuth lib cred))
   \<and> (creds auther (Hostname req) = Some cred \<and> resp = Some r \<and> Header r = None \<longrightarrow>
        TryGetAuth lib auther req resp = Inr (getBasicAuth lib cred))
   \<and> (creds auther (Hostname req) = Some cred \<and> resp = Some r \<and> Header r = Some header \<longrightarrow>
        (TryGetAuth lib auther req resp = Inr (getBasicAuth lib cred)
           \<longleftrightarrow> takeWhile (\<lambda>c. c \<noteq> CHR '' '') (header ''Www-Authenticate'') = ''Basic'')
      \<and> (takeWhile (\<lambda>c. c \<noteq> CHR '' '') (header ''Www-Authenticate'') = ''Digest'' \<longrightarrow>
           TryGetAuth lib auther req resp = getDigestAuth lib cred req resp)
      \<and> (takeWhile (\<lambda>c. c \<noteq> CHR '' '') (header ''Www-Authenticate'') \<noteq> ''Basic''
         \<and> takeWhile (\<lambda>c. c \<noteq> CHR '' '') (header ''Www-Authenticate'') \<noteq> ''Digest'' \<longrightarrow>
           TryGetAuth lib auther req resp = Inr []))
   \<and> getBasicAuth lib cred = ''Basic '' @ base64 lib (Username cred @ '':'' @ Password cred)"
proof -
  have ne: "Inr [] \<noteq> (Inr (getBasicAuth lib cred) :: panic + string)"
    by (simp add: getBasicAuth_def SetBasicAuth_def)
  show ?thesis
    using ne getDigestAuth_not_Basic [of lib cred req resp cred]
    by (auto simp: TryGetAuth_def Let_def Split_def hd_genSplit_char)
       (simp_all add: getBasicAuth_def SetBasicAuth_def)
qed

theorem TryGetAuth_dispatch_witness:
  "TryGetAuth shown_lib one_host other_request (Some (challenge challenge_header)) = Inr []
   \<and> TryGetAuth shown_lib one_host index_request None = Inr ''Basic b64[Mufasa:Circle of Life]''
   \<and> TryGetAuth shown_lib one_host index_request (Some no_header)
       = Inr ''Basic b64[Mufasa:Circle of Life]''
   \<and> TryGetAuth shown_lib one_host index_request (Some (challenge ''Basic realm=x''))
       = Inr ''Basic b64[Mufasa:Circle of Life]''
   \<and> TryGetAuth shown_lib one_host index_request (Some (challenge challenge_header))
       = getDigestAuth shown_lib mufasa index_request (Some (challenge challenge_header))
   \<and> TryGetAuth shown_lib one_host index_request (Some (challenge ''NTLM abc'')) = Inr []"
proof -
  have c0: "creds one_host (Hostname other_request) = None"
    by (simp add: one_host_def other_request_def)
  have c1: "creds one_host (Hostname index_request) = Some mufasa"
    by (simp add: one_host_def index_request_def)
  have b: "getBasicAuth shown_lib mufasa = ''Basic b64[Mufasa:Circle of Life]''"
    by (simp add: getBasicAuth_def SetBasicAuth_def shown_lib_def shown_def mufasa_def)
  have h: "Header (challenge x) = Some (www_authenticate x)" for x
    by (simp add: challenge_def)
  have w1: "takeWhile (\<lambda>c. c \<noteq> CHR '' '') (www_authenticate ''Basic realm=x'' ''Www-Authenticate'') = ''Basic''"
    by (simp add: www_authenticate_def)
  have w2: "takeWhile (\<lambda>c. c \<noteq> CHR '' '') (www_authenticate challenge_header ''Www-Authenticate'') = ''Digest''"
    by (simp add: www_authenticate_def challenge_header_def)
  have w3: "takeWhile (\<lambda>c. c \<noteq> CHR '' '') (www_authenticate ''NTLM abc'' ''Www-Authenticate'') = ''NTLM''"
    by (simp add: www_authenticate_def)
  have "TryGetAuth shown_lib one_host other_request (Some (challenge challenge_header)) = Inr []"
    using TryGetAuth_dispatch [of one_host other_request] c0 by simp
  moreover have "TryGetAuth shown_lib one_host index_request None = Inr ''Basic b64[Mufasa:Circle of Life]''"
    using TryGetAuth_dispatch [of one_host index_request shown_lib None mufasa] c1 b by simp
  moreover have "TryGetAuth shown_lib one_host index_request (Some no_header)
       = Inr ''Basic b64[Mufasa:Circle of Life]''"
    using TryGetAuth_dispatch [of one_host index_request shown_lib "Some no_header" mufasa no_header] c1 b
    by (simp add: no_header_def)
  moreover have "TryGetAuth shown_lib one_host index_request (Some (challenge ''Basic realm=x''))
       = Inr ''Basic b64[Mufasa:Circle of Life]''"
    using TryGetAuth_dispatch [of one_host index_request shown_lib "Some (challenge ''Basic realm=x'')"
        mufasa "challenge ''Basic realm=x''" "www_authenticate ''Basic realm=x''"] c1 b h w1
    by simp
  moreover have "TryGetAuth shown_lib one_host index_request (Some (challenge challenge_header))
       = getDigestAuth shown_lib mufasa index_request (Some (challenge challenge_header))"
    using TryGetAuth_dispatch [of one_host index_request shown_lib "Some (challenge challenge_header)"
        mufasa "challenge challenge_header" "www_authenticate challenge_header"] c1 h w2
    by simp
  moreover have "TryGetAuth shown_lib one_host index_request (Some (challenge ''NTLM abc'')) = Inr []"
    using TryGetAuth_dispatch [of one_host index_request shown_lib "Some (challenge ''NTLM abc'')"
        mufasa "challenge ''NTLM abc''" "www_authenticate ''NTLM abc''"] c1 h w3
    by simp
  ultimately show ?thesis by simp
qed

end
